theory Spec2Isabelle
  imports Complex_Main
begin

section \<open>Solar potential calculator (backend/solar\_calculations.py)\<close>

text \<open>
  The embedding follows \<^verbatim>\<open>SolarCalculator\<close> in backend/solar\_calculations.py and
  the tables of config/constants.py. A Python float is a real number that stands for a
  binary64 value. Where the rounded result of a float operation decides a discrete
  output (the \<^verbatim>\<open>int()\<close> truncations of the sizer and of the panel count, the
  comparison that ends the payback loop) every operation is rounded to binary64, to
  nearest with ties to even, as the interpreter does. The continuous outputs (energy,
  costs, savings, emissions) are kept in exact arithmetic. Overflow to infinity and NaN
  are outside the model (the one place where NumPy produces a NaN without raising, the
  mean of an empty sequence, is written out). Python dictionaries whose keys may be
  missing or ill-typed are maps from key strings to dynamically typed values, and every
  exception of the source is a value of \<open>error\<close>.
\<close>

subsection \<open>Python values and exceptions\<close>

datatype pyval = Num real | Str string | NumList "real list"

datatype error = KeyError string | TypeError | AttributeError | ZeroDivisionError

type_synonym pydict = "string \<rightharpoonup> pyval"

text \<open>\<^verbatim>\<open>d[k]\<close>: raises KeyError when the key is absent.\<close>

definition getitem :: "pydict \<Rightarrow> string \<Rightarrow> error + pyval" where
  "getitem d k = (case d k of None \<Rightarrow> Inl (KeyError k) | Some v \<Rightarrow> Inr v)"

text \<open>A value used as an operand of float arithmetic or of a comparison with a number:
  strings and lists raise TypeError.\<close>

definition as_number :: "pyval \<Rightarrow> error + real" where
  "as_number v = (case v of Num x \<Rightarrow> Inr x | Str s \<Rightarrow> Inl TypeError | NumList xs \<Rightarrow> Inl TypeError)"

text \<open>\<^verbatim>\<open>int(x)\<close> on a float truncates towards zero.\<close>

definition py_int :: "real \<Rightarrow> int" where
  "py_int x = (if 0 \<le> x then \<lfloor>x\<rfloor> else \<lceil>x\<rceil>)"

subsection \<open>Binary64 rounding\<close>

text \<open>Rounding of a real to the nearest integer, ties to the even one.\<close>

definition round_half_even :: "real \<Rightarrow> int" where
  "round_half_even y =
     (let f = \<lfloor>y\<rfloor>; d = y - real_of_int f
      in if d < 1 / 2 then f else if 1 / 2 < d then f + 1 else if even f then f else f + 1)"

text \<open>The binade of a positive real: the exponent \<open>e\<close> with \<open>2 ^ e \<le> x < 2 ^ (e + 1)\<close>,
  searched upwards from 0 for \<open>x \<ge> 1\<close> and downwards from -1 otherwise, and kept within
  the exponent range of binary64 (-1022 for the subnormal numbers, 1023 at the top).\<close>

function binade_up :: "real \<Rightarrow> nat \<Rightarrow> nat" where
  "binade_up x k = (if k < 1023 \<and> 2 ^ (k + 1) \<le> x then binade_up x (k + 1) else k)"
  by pat_completeness auto
termination
  by (relation "measure (\<lambda>(x, k). 1023 - k)") auto

function binade_down :: "real \<Rightarrow> nat \<Rightarrow> nat" where
  "binade_down x k = (if k < 1022 \<and> x * 2 ^ k < 1 then binade_down x (k + 1) else k)"
  by pat_completeness auto
termination
  by (relation "measure (\<lambda>(x, k). 1022 - k)") auto

declare binade_up.simps [simp del]
declare binade_down.simps [simp del]

definition binade :: "real \<Rightarrow> int" where
  "binade x = (if 1 \<le> x then int (binade_up x 0) else - int (binade_down x 1))"

text \<open>The spacing of the binary64 numbers in the binade of \<open>x\<close>: 52 fraction bits.\<close>

definition ulp :: "real \<Rightarrow> real" where
  "ulp x = 2 powi (binade x - 52)"

text \<open>The binary64 number nearest to a real, ties to even: the result of every float
  operation is the rounding of its exact result.\<close>

definition rnd_pos :: "real \<Rightarrow> real" where
  "rnd_pos x = real_of_int (round_half_even (x / ulp x)) * ulp x"

definition rnd :: "real \<Rightarrow> real" where
  "rnd x = (if x = 0 then 0 else if 0 < x then rnd_pos x else - rnd_pos (- x))"


subsection \<open>Payback period\<close>

text \<open>
  The loop of \<^verbatim>\<open>_calculate_payback_period\<close>:
  \<^verbatim>\<open>while cumulative_savings < initial_cost and year < 50\<close>, with the state
  (year, cumulative\_savings, current\_annual\_savings). The addition, the sum
  \<^verbatim>\<open>1 + escalation_rate\<close> and the multiplication are float operations.
\<close>

function payback_loop :: "real \<Rightarrow> real \<Rightarrow> nat \<Rightarrow> real \<Rightarrow> real \<Rightarrow> nat" where
  "payback_loop initial_cost escalation_rate year cumulative_savings current_annual_savings =
     (if cumulative_savings < initial_cost \<and> year < 50
      then payback_loop initial_cost escalation_rate (year + 1)
             (rnd (cumulative_savings + current_annual_savings))
             (rnd (current_annual_savings * rnd (1 + escalation_rate)))
      else year)"
  by pat_completeness auto
termination
  by (relation "measure (\<lambda>(c, e, y, cum, cur). 50 - y)") auto

declare payback_loop.simps [simp del]

text \<open>\<^verbatim>\<open>_calculate_payback_period\<close>. Its arguments are floats: the loop runs on the
  binary64 numbers the arguments stand for (a real that is not a binary64 number, such
  as the decimal 0.03, stands for the nearest one, as a literal does in the source).\<close>

definition calculate_payback_period :: "real \<Rightarrow> real \<Rightarrow> real \<Rightarrow> real" where
  "calculate_payback_period initial_cost annual_savings escalation_rate =
     (if annual_savings \<le> 0 then 99.0
      else min (real (payback_loop (rnd initial_cost) (rnd escalation_rate) 0 0
                        (rnd annual_savings))) 50.0)"

subsection \<open>Configuration tables (config/constants.py)\<close>

record panel_spec =
  power_watts :: int
  efficiency :: real
  area_m2 :: real
  cost_premium :: real
  lifespan_years :: int
  degradation_rate :: real

definition PANEL_SPECS :: "string \<rightharpoonup> panel_spec" where
  "PANEL_SPECS = map_of
     [(''monocrystalline'',
         \<lparr>power_watts = 400, efficiency = 0.20, area_m2 = 2.0, cost_premium = 1.0,
          lifespan_years = 25, degradation_rate = 0.005\<rparr>),
      (''polycrystalline'',
         \<lparr>power_watts = 350, efficiency = 0.17, area_m2 = 2.0, cost_premium = 0.85,
          lifespan_years = 25, degradation_rate = 0.006\<rparr>),
      (''thin_film'',
         \<lparr>power_watts = 250, efficiency = 0.12, area_m2 = 2.0, cost_premium = 0.70,
          lifespan_years = 20, degradation_rate = 0.008\<rparr>),
      (''bifacial'',
         \<lparr>power_watts = 450, efficiency = 0.22, area_m2 = 2.0, cost_premium = 1.20,
          lifespan_years = 30, degradation_rate = 0.004\<rparr>)]"

record system_losses_rec =
  inverter_efficiency :: real
  dc_losses :: real
  ac_losses :: real
  soiling_losses :: real
  temperature_coefficient :: real
  mismatch_losses :: real
  snow_losses :: real

definition SYSTEM_LOSSES :: system_losses_rec where
  "SYSTEM_LOSSES =
     \<lparr>inverter_efficiency = 0.96, dc_losses = 0.98, ac_losses = 0.99, soiling_losses = 0.95,
      temperature_coefficient = 0.004, mismatch_losses = 0.98, snow_losses = 0.99\<rparr>"

record financial_params =
  federal_tax_credit :: real
  electricity_rate_escalation :: real
  discount_rate :: real
  system_lifespan_years :: int
  inverter_replacement_year :: int
  inverter_replacement_cost :: real

definition FINANCIAL_PARAMS :: financial_params where
  "FINANCIAL_PARAMS =
     \<lparr>federal_tax_credit = 0.30, electricity_rate_escalation = 0.03, discount_rate = 0.04,
      system_lifespan_years = 25, inverter_replacement_year = 15,
      inverter_replacement_cost = 0.20\<rparr>"

subsection \<open>System sizing\<close>

text \<open>Float division of a dictionary value by a float: TypeError for a string or a list,
  ZeroDivisionError for a zero divisor.\<close>

definition py_truediv :: "pyval \<Rightarrow> real \<Rightarrow> error + real" where
  "py_truediv v d =
     (case v of
        Num x \<Rightarrow> if d = 0 then Inl ZeroDivisionError else Inr (x / d)
      | Str s \<Rightarrow> Inl TypeError
      | NumList xs \<Rightarrow> Inl TypeError)"

text \<open>The body of the \<^verbatim>\<open>try\<close> block of \<^verbatim>\<open>_calculate_system_size\<close>. The quotient
  \<open>q\<close> of the usable area by the panel area, the product with the spacing factor and
  the division by 1000 are float operations: each is rounded.\<close>

definition calculate_system_size_body :: "pydict \<Rightarrow> panel_spec \<Rightarrow> error + real" where
  "calculate_system_size_body roof_metrics panel_specs =
     (case getitem roof_metrics ''usable_area'' of
        Inl e \<Rightarrow> Inl e
      | Inr usable_area \<Rightarrow>
          let panel_area = area_m2 panel_specs;
              panel_power = power_watts panel_specs
          in (case py_truediv usable_area panel_area of
                Inl e \<Rightarrow> Inl e
              | Inr q \<Rightarrow>
                  let max_panels = py_int (rnd q);
                      spacing_factor = 0.75;
                      actual_panels = py_int (rnd (real_of_int max_panels * spacing_factor));
                      system_size_kw0 = rnd (real_of_int (actual_panels * panel_power) / 1000);
                      system_size_kw1 = min system_size_kw0 50.0
                  in Inr (max 1.0 system_size_kw1)))"

text \<open>\<^verbatim>\<open>_calculate_system_size\<close>: any exception of the body is caught and the
  stage's own default, 5 kW, is returned.\<close>

definition calculate_system_size :: "pydict \<Rightarrow> panel_spec \<Rightarrow> real" where
  "calculate_system_size roof_metrics panel_specs =
     (case calculate_system_size_body roof_metrics panel_specs of
        Inl e \<Rightarrow> 5.0
      | Inr kw \<Rightarrow> kw)"

subsection \<open>Annual energy\<close>

text \<open>\<^verbatim>\<open>str.lower\<close> on ASCII strings.\<close>

definition lower_char :: "char \<Rightarrow> char" where
  "lower_char c =
     (let n = (of_char c :: nat)
      in if 65 \<le> n \<and> n \<le> 90 then char_of (n + 32) else c)"

definition py_lower :: "string \<Rightarrow> string" where
  "py_lower s = map lower_char s"

definition orientation_factors :: "string \<rightharpoonup> real" where
  "orientation_factors = map_of
     [(''south'', 1.00),
      (''southeast'', 0.95),
      (''southwest'', 0.95),
      (''east'', 0.85),
      (''west'', 0.85),
      (''northeast'', 0.75),
      (''northwest'', 0.75),
      (''north'', 0.60)]"

text \<open>\<^verbatim>\<open>_get_orientation_factor\<close>, applied to the dictionary value: a value that is
  not a string has no \<^verbatim>\<open>lower\<close> method (AttributeError).\<close>

definition get_orientation_factor :: "pyval \<Rightarrow> error + real" where
  "get_orientation_factor orientation =
     (case orientation of
        Str s \<Rightarrow> Inr (case orientation_factors (py_lower s) of Some f \<Rightarrow> f | None \<Rightarrow> 0.85)
      | Num x \<Rightarrow> Inl AttributeError
      | NumList xs \<Rightarrow> Inl AttributeError)"

text \<open>\<^verbatim>\<open>_get_tilt_factor\<close>: the comparisons raise TypeError on a string or a list.\<close>

definition get_tilt_factor :: "pyval \<Rightarrow> error + real" where
  "get_tilt_factor slope =
     (case as_number slope of
        Inl e \<Rightarrow> Inl e
      | Inr slope_degrees \<Rightarrow>
          Inr (if slope_degrees < 10 then 0.90
               else if slope_degrees \<le> 15 then 0.95
               else if slope_degrees \<le> 25 then 1.00
               else if slope_degrees \<le> 35 then 0.98
               else if slope_degrees \<le> 45 then 0.95
               else 0.85))"

text \<open>\<^verbatim>\<open>np.mean\<close>: the arithmetic mean of a sequence, the number itself for a scalar,
  an error for a string. On an empty sequence NumPy warns and returns NaN without
  raising; \<open>None\<close> stands for that NaN.\<close>

definition np_mean :: "pyval \<Rightarrow> error + real option" where
  "np_mean v =
     (case v of
        NumList xs \<Rightarrow> if xs = [] then Inr None else Inr (Some (sum_list xs / real (length xs)))
      | Num x \<Rightarrow> Inr (Some x)
      | Str s \<Rightarrow> Inl TypeError)"

text \<open>The daily irradiance baseline chosen at the head of
  \<^verbatim>\<open>_calculate_annual_energy\<close> (\<open>None\<close> is NaN).\<close>

definition daily_irradiance_of :: "pydict \<Rightarrow> error + real option" where
  "daily_irradiance_of solar_data =
     (if ''annual_irradiance'' \<in> dom solar_data then
        (case getitem solar_data ''annual_irradiance'' of
           Inl e \<Rightarrow> Inl e
         | Inr v \<Rightarrow> (case py_truediv v 365 of Inl e \<Rightarrow> Inl e | Inr d \<Rightarrow> Inr (Some d)))
      else if ''monthly_irradiance'' \<in> dom solar_data then
        (case getitem solar_data ''monthly_irradiance'' of
           Inl e \<Rightarrow> Inl e
         | Inr v \<Rightarrow> np_mean v)
      else Inr (Some 4.5))"

definition performance_ratio :: real where
  "performance_ratio =
     inverter_efficiency SYSTEM_LOSSES * dc_losses SYSTEM_LOSSES *
     ac_losses SYSTEM_LOSSES * soiling_losses SYSTEM_LOSSES"

text \<open>The body of the \<^verbatim>\<open>try\<close> block of \<^verbatim>\<open>_calculate_annual_energy\<close>. With a NaN
  baseline the product is NaN and \<^verbatim>\<open>max(0, nan)\<close> returns its first argument, 0.\<close>

definition calculate_annual_energy_body ::
  "real \<Rightarrow> pydict \<Rightarrow> pydict \<Rightarrow> panel_spec \<Rightarrow> error + real" where
  "calculate_annual_energy_body size_kw solar_data roof_metrics panel_specs =
     (case daily_irradiance_of solar_data of
        Inl e \<Rightarrow> Inl e
      | Inr daily_irradiance \<Rightarrow>
     (case getitem roof_metrics ''orientation'' of
        Inl e \<Rightarrow> Inl e
      | Inr orientation \<Rightarrow>
     (case get_orientation_factor orientation of
        Inl e \<Rightarrow> Inl e
      | Inr orientation_factor \<Rightarrow>
     (case getitem roof_metrics ''slope'' of
        Inl e \<Rightarrow> Inl e
      | Inr slope \<Rightarrow>
     (case get_tilt_factor slope of
        Inl e \<Rightarrow> Inl e
      | Inr tilt_factor \<Rightarrow>
     (case getitem roof_metrics ''shading_factor'' of
        Inl e \<Rightarrow> Inl e
      | Inr shading \<Rightarrow>
     (case as_number shading of
        Inl e \<Rightarrow> Inl e
      | Inr sh \<Rightarrow>
          let shading_factor = 1.0 - sh
          in (case daily_irradiance of
                None \<Rightarrow> Inr 0
              | Some d \<Rightarrow>
                  Inr (max 0 (size_kw * d * orientation_factor * tilt_factor *
                              shading_factor * performance_ratio * 365))))))))))"

text \<open>\<^verbatim>\<open>_calculate_annual_energy\<close>: on any exception the stage's own default,
  1200 kWh per kW, is returned.\<close>

definition calculate_annual_energy ::
  "real \<Rightarrow> pydict \<Rightarrow> pydict \<Rightarrow> panel_spec \<Rightarrow> real" where
  "calculate_annual_energy size_kw solar_data roof_metrics panel_specs =
     (case calculate_annual_energy_body size_kw solar_data roof_metrics panel_specs of
        Inl e \<Rightarrow> size_kw * 1200
      | Inr kwh \<Rightarrow> kwh)"

definition calculate_capacity_factor :: "real \<Rightarrow> real \<Rightarrow> real" where
  "calculate_capacity_factor energy_kwh size_kw =
     (if size_kw = 0 then 0.0
      else let theoretical_max = size_kw * 8760;
               cf = energy_kwh / theoretical_max
           in min 1.0 (max 0.0 cf))"

subsection \<open>Financial metrics\<close>

text \<open>\<^verbatim>\<open>_calculate_lifetime_savings\<close>: the \<^verbatim>\<open>for year in range(years)\<close> loop with the
  state (total\_savings, current\_annual\_savings).\<close>

fun lifetime_loop :: "nat \<Rightarrow> real \<Rightarrow> real \<Rightarrow> real \<Rightarrow> real" where
  "lifetime_loop 0 escalation_rate total_savings current_annual_savings = total_savings"
| "lifetime_loop (Suc n) escalation_rate total_savings current_annual_savings =
     lifetime_loop n escalation_rate (total_savings + current_annual_savings)
       (current_annual_savings * (1 + escalation_rate))"

definition calculate_lifetime_savings :: "real \<Rightarrow> real \<Rightarrow> nat \<Rightarrow> real" where
  "calculate_lifetime_savings savings escalation_rate years =
     lifetime_loop years escalation_rate 0 savings"

record financial_metrics =
  total_cost :: real
  federal_incentive :: real
  net_cost :: real
  annual_savings :: real
  monthly_savings :: real
  payback_years :: real
  lifetime_savings :: real
  roi_percent :: real
  cost_per_watt :: real
  savings_per_kwh :: real

text \<open>Float division: a zero divisor raises ZeroDivisionError.\<close>

definition float_div :: "real \<Rightarrow> real \<Rightarrow> error + real" where
  "float_div a b = (if b = 0 then Inl ZeroDivisionError else Inr (a / b))"

text \<open>The body of the \<^verbatim>\<open>try\<close> block of \<^verbatim>\<open>_calculate_financial_metrics\<close>. Its
  arguments are floats; the only operation that can raise on floats is the division of
  the ROI expression.\<close>

definition calculate_financial_metrics_body ::
  "real \<Rightarrow> real \<Rightarrow> real \<Rightarrow> real \<Rightarrow> error + financial_metrics" where
  "calculate_financial_metrics_body size_kw energy_kwh electricity_rate installation_cost_per_watt =
     (let cost = size_kw * 1000 * installation_cost_per_watt;
          incentive = cost * federal_tax_credit FINANCIAL_PARAMS;
          net = cost - incentive;
          savings = energy_kwh * electricity_rate;
          escalation_rate = electricity_rate_escalation FINANCIAL_PARAMS;
          payback = calculate_payback_period net savings escalation_rate;
          lifetime = calculate_lifetime_savings savings escalation_rate 25
      in (case (if net > 0
                then (case float_div (lifetime - net) net of
                        Inl e \<Rightarrow> Inl e
                      | Inr q \<Rightarrow> Inr (q * 100))
                else Inr 0) of
            Inl e \<Rightarrow> Inl e
          | Inr roi \<Rightarrow>
              Inr \<lparr>total_cost = cost,
                   federal_incentive = incentive,
                   net_cost = net,
                   annual_savings = savings,
                   monthly_savings = savings / 12,
                   payback_years = payback,
                   lifetime_savings = lifetime,
                   roi_percent = roi,
                   cost_per_watt = installation_cost_per_watt,
                   savings_per_kwh = electricity_rate\<rparr>))"

definition get_default_financial_metrics :: financial_metrics where
  "get_default_financial_metrics =
     \<lparr>total_cost = 15000,
      federal_incentive = 4500,
      net_cost = 10500,
      annual_savings = 1200,
      monthly_savings = 100,
      payback_years = 8.8,
      lifetime_savings = 30000,
      roi_percent = 185.7,
      cost_per_watt = 3.0,
      savings_per_kwh = 0.20\<rparr>"

definition calculate_financial_metrics ::
  "real \<Rightarrow> real \<Rightarrow> real \<Rightarrow> real \<Rightarrow> financial_metrics" where
  "calculate_financial_metrics size_kw energy_kwh electricity_rate installation_cost_per_watt =
     (case calculate_financial_metrics_body size_kw energy_kwh electricity_rate
             installation_cost_per_watt of
        Inl e \<Rightarrow> get_default_financial_metrics
      | Inr m \<Rightarrow> m)"

subsection \<open>Environmental impact\<close>

record environmental_impact =
  annual_co2_offset_lbs :: real
  annual_co2_offset_tons :: real
  lifetime_co2_offset_tons :: real
  equivalent_trees_planted :: real
  equivalent_cars_removed :: real

text \<open>\<^verbatim>\<open>_calculate_environmental_impact\<close>: arithmetic on a float with non-zero constant
  divisors; nothing in the body can raise.\<close>

definition calculate_environmental_impact :: "real \<Rightarrow> environmental_impact" where
  "calculate_environmental_impact energy_kwh =
     (let co2_factor_lbs_per_kwh = 0.85;
          lbs = energy_kwh * co2_factor_lbs_per_kwh;
          tons = lbs / 2000
      in \<lparr>annual_co2_offset_lbs = lbs,
          annual_co2_offset_tons = tons,
          lifetime_co2_offset_tons = tons * 25,
          equivalent_trees_planted = lbs / 48,
          equivalent_cars_removed = tons / 4.6\<rparr>)"

subsection \<open>The orchestrator\<close>

record system_specs =
  panel_type :: string
  panel_power :: int
  panel_efficiency :: real
  system_losses :: system_losses_rec

text \<open>The result dictionary. The source splices the financial and the environmental
  dictionaries into it with \<^verbatim>\<open>**\<close>; their keys are disjoint from the others, so
  they are kept here as two sub-records.\<close>

record solar_potential =
  system_size_kw :: real
  panel_count :: int
  annual_energy_kwh :: real
  monthly_energy_kwh :: real
  daily_energy_kwh :: real
  capacity_factor :: real
  financial :: financial_metrics
  environmental :: environmental_impact
  system_specifications :: system_specs

text \<open>\<^verbatim>\<open>PANEL_SPECS.get(panel_type, PANEL_SPECS['monocrystalline'])\<close>: the default
  argument is evaluated first.\<close>

definition panel_specs_for :: "string \<Rightarrow> error + panel_spec" where
  "panel_specs_for ptype =
     (case PANEL_SPECS ''monocrystalline'' of
        None \<Rightarrow> Inl (KeyError ''monocrystalline'')
      | Some dflt \<Rightarrow> Inr (case PANEL_SPECS ptype of Some p \<Rightarrow> p | None \<Rightarrow> dflt))"

definition get_default_potential :: solar_potential where
  "get_default_potential =
     \<lparr>system_size_kw = 5.0,
      panel_count = 16,
      annual_energy_kwh = 6000,
      monthly_energy_kwh = 500,
      daily_energy_kwh = 16.4,
      capacity_factor = 0.14,
      financial = get_default_financial_metrics,
      environmental =
        \<lparr>annual_co2_offset_lbs = 5100,
         annual_co2_offset_tons = 2.55,
         lifetime_co2_offset_tons = 63.75,
         equivalent_trees_planted = 106,
         equivalent_cars_removed = 0.55\<rparr>,
      system_specifications =
        \<lparr>panel_type = ''monocrystalline'',
         panel_power = 400,
         panel_efficiency = 0.20,
         system_losses = SYSTEM_LOSSES\<rparr>\<rparr>"

text \<open>The body of the \<^verbatim>\<open>try\<close> block of \<^verbatim>\<open>calculate_potential\<close>. The stage functions
  handle their own exceptions; what can still raise here is the catalog lookup and the
  division of the panel count. The panel count truncates a float: the product
  \<^verbatim>\<open>system_size_kw * 1000\<close> and its quotient by the panel power are each rounded.\<close>

definition calculate_potential_body ::
  "pydict \<Rightarrow> pydict \<Rightarrow> string \<Rightarrow> real \<Rightarrow> real \<Rightarrow> error + solar_potential" where
  "calculate_potential_body roof_metrics solar_data ptype electricity_rate installation_cost_per_watt =
     (case panel_specs_for ptype of
        Inl e \<Rightarrow> Inl e
      | Inr panel_specs \<Rightarrow>
          let size_kw = calculate_system_size roof_metrics panel_specs;
              energy_kwh = calculate_annual_energy size_kw solar_data roof_metrics panel_specs;
              fin = calculate_financial_metrics size_kw energy_kwh electricity_rate
                      installation_cost_per_watt;
              env = calculate_environmental_impact energy_kwh
          in (case float_div (rnd (size_kw * 1000)) (real_of_int (power_watts panel_specs)) of
                Inl e \<Rightarrow> Inl e
              | Inr q \<Rightarrow>
                  Inr \<lparr>system_size_kw = size_kw,
                       panel_count = py_int (rnd q),
                       annual_energy_kwh = energy_kwh,
                       monthly_energy_kwh = energy_kwh / 12,
                       daily_energy_kwh = energy_kwh / 365,
                       capacity_factor = calculate_capacity_factor energy_kwh size_kw,
                       financial = fin,
                       environmental = env,
                       system_specifications =
                         \<lparr>panel_type = ptype,
                          panel_power = power_watts panel_specs,
                          panel_efficiency = efficiency panel_specs,
                          system_losses = SYSTEM_LOSSES\<rparr>\<rparr>))"

text \<open>\<^verbatim>\<open>calculate_potential\<close>: any exception that reaches the outer handler is replaced
  by the canned result.\<close>

definition calculate_potential ::
  "pydict \<Rightarrow> pydict \<Rightarrow> string \<Rightarrow> real \<Rightarrow> real \<Rightarrow> solar_potential" where
  "calculate_potential roof_metrics solar_data ptype electricity_rate installation_cost_per_watt =
     (case calculate_potential_body roof_metrics solar_data ptype electricity_rate
             installation_cost_per_watt of
        Inl e \<Rightarrow> get_default_potential
      | Inr r \<Rightarrow> r)"

subsection \<open>The specification's formulas\<close>

text \<open>The cumulative escalated savings of the specification, in exact arithmetic:
  the sum of \<open>savings * (1 + escalation) ^ (k - 1)\<close> over \<open>k = 1..n\<close>, where
  \<open>savings\<close> is the first year's annual savings.\<close>

definition cumulative_savings_spec :: "real \<Rightarrow> real \<Rightarrow> nat \<Rightarrow> real" where
  "cumulative_savings_spec savings escalation n =
     (\<Sum>k = 1..n. savings * (1 + escalation) ^ (k - 1))"

text \<open>The same savings accumulated year by year in binary64: the savings of a year are
  those of the year before times the rounded \<open>1 + escalation\<close>, rounded, and the running
  total takes one rounded addition per year.\<close>

fun escalated_savings_float :: "real \<Rightarrow> real \<Rightarrow> nat \<Rightarrow> real" where
  "escalated_savings_float savings escalation 0 = savings"
| "escalated_savings_float savings escalation (Suc k) =
     rnd (escalated_savings_float savings escalation k * rnd (1 + escalation))"

fun cumulative_savings_float :: "real \<Rightarrow> real \<Rightarrow> nat \<Rightarrow> real" where
  "cumulative_savings_float savings escalation 0 = 0"
| "cumulative_savings_float savings escalation (Suc n) =
     rnd (cumulative_savings_float savings escalation n
          + escalated_savings_float savings escalation n)"

text \<open>The payback period as a first year: the smallest year \<open>n\<close> with \<open>1 \<le> n \<le> 50\<close>
  whose cumulative savings, accumulated in binary64, reach the net cost, or 50 when no
  such year exists. The three arguments stand for binary64 numbers, as above.\<close>

definition payback_years_spec :: "real \<Rightarrow> real \<Rightarrow> real \<Rightarrow> real" where
  "payback_years_spec cost savings escalation =
     (case find (\<lambda>n. rnd cost \<le> cumulative_savings_float (rnd savings) (rnd escalation) n)
             [1..<51] of
        Some n \<Rightarrow> real n
      | None \<Rightarrow> 50.0)"

text \<open>Well-formed irradiance data: a numeric annual figure, or else a non-empty monthly
  sequence, or neither field.\<close>

definition solar_data_well_formed :: "pydict \<Rightarrow> bool" where
  "solar_data_well_formed solar_data =
     (case solar_data ''annual_irradiance'' of
        Some v \<Rightarrow> (case v of Num x \<Rightarrow> True | Str s \<Rightarrow> False | NumList xs \<Rightarrow> False)
      | None \<Rightarrow>
          (case solar_data ''monthly_irradiance'' of
             Some v \<Rightarrow> (case v of Num x \<Rightarrow> False | Str s \<Rightarrow> False | NumList xs \<Rightarrow> xs \<noteq> [])
           | None \<Rightarrow> True))"

text \<open>The daily irradiance baseline in the specification's words: the annual figure over
  365 when present, else the arithmetic mean of the monthly figures when present, else
  4.5. It is meant for well-formed data only; on an ill-typed field it is 4.5.\<close>

definition daily_irradiance_spec :: "pydict \<Rightarrow> real" where
  "daily_irradiance_spec solar_data =
     (case solar_data ''annual_irradiance'' of
        Some v \<Rightarrow> (case v of Num x \<Rightarrow> x / 365 | Str s \<Rightarrow> 4.5 | NumList xs \<Rightarrow> 4.5)
      | None \<Rightarrow>
          (case solar_data ''monthly_irradiance'' of
             Some v \<Rightarrow>
               (case v of
                  NumList xs \<Rightarrow> sum_list xs / real (length xs)
                | Num x \<Rightarrow> 4.5
                | Str s \<Rightarrow> 4.5)
           | None \<Rightarrow> 4.5))"

section \<open>Properties\<close>

subsection \<open>Auxiliary facts\<close>

lemma round_half_even_of_int: "round_half_even (real_of_int n) = n"
  by (simp add: round_half_even_def)

lemma round_half_even_bounds: "\<lfloor>y\<rfloor> \<le> round_half_even y \<and> round_half_even y \<le> \<lfloor>y\<rfloor> + 1"
  by (simp add: round_half_even_def Let_def)

lemma round_half_even_mono:
  assumes "x \<le> y"
  shows "round_half_even x \<le> round_half_even y"
proof (cases "\<lfloor>x\<rfloor> = \<lfloor>y\<rfloor>")
  case True
  have "x - real_of_int \<lfloor>x\<rfloor> \<le> y - real_of_int \<lfloor>y\<rfloor>"
    using assms True by simp
  then show ?thesis
    using True by (auto simp: round_half_even_def Let_def)
next
  case False
  have "\<lfloor>x\<rfloor> \<le> \<lfloor>y\<rfloor>" using assms by (rule floor_mono)
  with False have "\<lfloor>x\<rfloor> + 1 \<le> \<lfloor>y\<rfloor>" by simp
  then show ?thesis
    using round_half_even_bounds[of x] round_half_even_bounds[of y] by linarith
qed

lemma binade_up_range: "k \<le> 1023 \<Longrightarrow> k \<le> binade_up x k \<and> binade_up x k \<le> 1023"
proof (induction x k rule: binade_up.induct)
  case (1 x k)
  show ?case
  proof (cases "k < 1023 \<and> 2 ^ (k + 1) \<le> x")
    case True
    then have "binade_up x k = binade_up x (k + 1)"
      by (subst binade_up.simps) simp
    with "1.IH"[OF True] True show ?thesis by simp
  next
    case False
    then have "binade_up x k = k"
      by (subst binade_up.simps) auto
    with "1.prems" show ?thesis by simp
  qed
qed

lemma binade_up_lower: "2 ^ k \<le> x \<Longrightarrow> 2 ^ binade_up x k \<le> x"
proof (induction x k rule: binade_up.induct)
  case (1 x k)
  show ?case
  proof (cases "k < 1023 \<and> 2 ^ (k + 1) \<le> x")
    case True
    then have "binade_up x k = binade_up x (k + 1)"
      by (subst binade_up.simps) simp
    with "1.IH"[OF True] True show ?thesis by simp
  next
    case False
    then have "binade_up x k = k"
      by (subst binade_up.simps) auto
    with "1.prems" show ?thesis by simp
  qed
qed

lemma binade_up_upper: "binade_up x k < 1023 \<Longrightarrow> x < 2 ^ (binade_up x k + 1)"
proof (induction x k rule: binade_up.induct)
  case (1 x k)
  show ?case
  proof (cases "k < 1023 \<and> 2 ^ (k + 1) \<le> x")
    case True
    then have eq: "binade_up x k = binade_up x (k + 1)"
      by (subst binade_up.simps) simp
    with "1.IH"[OF True] "1.prems" show ?thesis by simp
  next
    case False
    then have eq: "binade_up x k = k"
      by (subst binade_up.simps) auto
    with "1.prems" False show ?thesis by (simp add: not_le)
  qed
qed

lemma binade_up_mono: "x \<le> y \<Longrightarrow> k \<le> 1023 \<Longrightarrow> binade_up x k \<le> binade_up y k"
proof (induction x k rule: binade_up.induct)
  case (1 x k)
  show ?case
  proof (cases "k < 1023 \<and> 2 ^ (k + 1) \<le> x")
    case True
    then have ex: "binade_up x k = binade_up x (k + 1)"
      by (subst binade_up.simps) simp
    have "k < 1023 \<and> 2 ^ (k + 1) \<le> y" using True "1.prems" by simp
    then have ey: "binade_up y k = binade_up y (k + 1)"
      by (subst binade_up.simps) simp
    show ?thesis using "1.IH"[OF True "1.prems"(1)] True by (simp add: ex ey)
  next
    case False
    then have "binade_up x k = k"
      by (subst binade_up.simps) auto
    with binade_up_range[OF "1.prems"(2), of y] show ?thesis by simp
  qed
qed

lemma binade_down_range: "k \<le> 1022 \<Longrightarrow> k \<le> binade_down x k \<and> binade_down x k \<le> 1022"
proof (induction x k rule: binade_down.induct)
  case (1 x k)
  show ?case
  proof (cases "k < 1022 \<and> x * 2 ^ k < 1")
    case True
    then have "binade_down x k = binade_down x (k + 1)"
      by (subst binade_down.simps) simp
    with "1.IH"[OF True] True show ?thesis by simp
  next
    case False
    then have "binade_down x k = k"
      by (subst binade_down.simps) auto
    with "1.prems" show ?thesis by simp
  qed
qed

lemma binade_down_upper:
  "0 < k \<Longrightarrow> x * 2 ^ (k - 1) < 1 \<Longrightarrow> x * 2 ^ (binade_down x k - 1) < 1"
proof (induction x k rule: binade_down.induct)
  case (1 x k)
  show ?case
  proof (cases "k < 1022 \<and> x * 2 ^ k < 1")
    case True
    then have "binade_down x k = binade_down x (k + 1)"
      by (subst binade_down.simps) simp
    with "1.IH"[OF True] True show ?thesis by simp
  next
    case False
    then have "binade_down x k = k"
      by (subst binade_down.simps) auto
    with "1.prems" show ?thesis by simp
  qed
qed

lemma binade_down_lower: "binade_down x k < 1022 \<Longrightarrow> 1 \<le> x * 2 ^ binade_down x k"
proof (induction x k rule: binade_down.induct)
  case (1 x k)
  show ?case
  proof (cases "k < 1022 \<and> x * 2 ^ k < 1")
    case True
    then have eq: "binade_down x k = binade_down x (k + 1)"
      by (subst binade_down.simps) simp
    with "1.IH"[OF True] "1.prems" show ?thesis by simp
  next
    case False
    then have eq: "binade_down x k = k"
      by (subst binade_down.simps) auto
    with "1.prems" False show ?thesis by (simp add: not_less)
  qed
qed

lemma binade_down_antimono:
  "x \<le> y \<Longrightarrow> k \<le> 1022 \<Longrightarrow> binade_down y k \<le> binade_down x k"
proof (induction y k rule: binade_down.induct)
  case (1 y k)
  show ?case
  proof (cases "k < 1022 \<and> y * 2 ^ k < 1")
    case True
    then have ey: "binade_down y k = binade_down y (k + 1)"
      by (subst binade_down.simps) simp
    have "x * 2 ^ k \<le> y * 2 ^ k" using "1.prems"(1) by (simp add: mult_right_mono)
    with True have "x * 2 ^ k < 1" by linarith
    with True have "k < 1022 \<and> x * 2 ^ k < 1" by blast
    then have ex: "binade_down x k = binade_down x (k + 1)"
      by (subst binade_down.simps) simp
    show ?thesis using "1.IH"[OF True "1.prems"(1)] True by (simp add: ex ey)
  next
    case False
    then have "binade_down y k = k"
      by (subst binade_down.simps) auto
    with binade_down_range[OF "1.prems"(2), of x] show ?thesis by simp
  qed
qed

lemma binade_range: "- 1022 \<le> binade x \<and> binade x \<le> 1023"
  using binade_up_range[of 0 x] binade_down_range[of 1 x]
  by (simp add: binade_def)

lemma binade_mono: "x \<le> y \<Longrightarrow> binade x \<le> binade y"
  using binade_up_mono[of x y 0] binade_down_antimono[of x y 1]
  by (auto simp: binade_def)

lemma binade_lower:
  assumes "- 1022 < binade x"
  shows "2 powi binade x \<le> x"
proof (cases "1 \<le> x")
  case True
  then have "2 ^ binade_up x 0 \<le> x" by (intro binade_up_lower) simp
  with True show ?thesis by (simp add: binade_def)
next
  case False
  then have b: "binade x = - int (binade_down x 1)" by (simp add: binade_def)
  with assms have "binade_down x 1 < 1022" by simp
  then have "1 \<le> x * 2 ^ binade_down x 1" by (rule binade_down_lower)
  then have "1 / 2 ^ binade_down x 1 \<le> x"
    by (simp add: divide_le_eq)
  then show ?thesis
    by (simp add: b power_int_minus inverse_eq_divide)
qed

lemma binade_upper:
  assumes "binade x < 1023"
  shows "x < 2 powi (binade x + 1)"
proof (cases "1 \<le> x")
  case True
  then have b: "binade x = int (binade_up x 0)" by (simp add: binade_def)
  with assms have "binade_up x 0 < 1023" by simp
  then have "x < 2 ^ (binade_up x 0 + 1)" by (rule binade_up_upper)
  then show ?thesis
    using b by (simp add: power_int_add)
next
  case False
  then have b: "binade x = - int (binade_down x 1)" by (simp add: binade_def)
  have r: "1 \<le> binade_down x 1" using binade_down_range[of 1 x] by simp
  have "x * 2 ^ (binade_down x 1 - 1) < 1"
    using False by (intro binade_down_upper) simp_all
  then have "x < 1 / 2 ^ (binade_down x 1 - 1)"
    by (simp add: less_divide_eq)
  moreover have "binade x + 1 = - int (binade_down x 1 - 1)"
    using b r by simp
  ultimately show ?thesis
    by (simp add: power_int_minus inverse_eq_divide)
qed

lemma ulp_pos: "0 < ulp x"
  by (simp add: ulp_def)

lemma rnd_pos_nonneg:
  assumes "0 < x"
  shows "0 \<le> rnd_pos x"
proof -
  have "0 \<le> x / ulp x" using assms ulp_pos[of x] by simp
  then have "0 \<le> \<lfloor>x / ulp x\<rfloor>" by simp
  then have "0 \<le> round_half_even (x / ulp x)"
    using round_half_even_bounds[of "x / ulp x"] by linarith
  then show ?thesis using ulp_pos[of x] by (simp add: rnd_pos_def)
qed

lemma rnd_pos_lower:
  assumes "2 powi binade x \<le> x"
  shows "2 powi binade x \<le> rnd_pos x"
proof -
  have e: "(2::real) powi binade x = 2 ^ 52 * ulp x"
    by (simp add: ulp_def power_int_diff)
  have "real_of_int (2 ^ 52) \<le> x / ulp x"
    using assms ulp_pos[of x] unfolding e by (simp add: le_divide_eq)
  then have "round_half_even (real_of_int (2 ^ 52)) \<le> round_half_even (x / ulp x)"
    by (rule round_half_even_mono)
  then have "(2::int) ^ 52 \<le> round_half_even (x / ulp x)"
    by (simp only: round_half_even_of_int)
  then have "real_of_int (2 ^ 52) \<le> real_of_int (round_half_even (x / ulp x))"
    by (simp only: of_int_le_iff)
  then have "real_of_int (2 ^ 52) * ulp x \<le> real_of_int (round_half_even (x / ulp x)) * ulp x"
    using ulp_pos[of x] by (simp only: mult_le_cancel_right) simp
  then show ?thesis unfolding e rnd_pos_def by simp
qed

lemma rnd_pos_upper:
  assumes "x \<le> 2 powi (binade x + 1)"
  shows "rnd_pos x \<le> 2 powi (binade x + 1)"
proof -
  have e: "(2::real) powi (binade x + 1) = 2 ^ 53 * ulp x"
    by (simp add: ulp_def power_int_diff power_int_add)
  have "x / ulp x \<le> real_of_int (2 ^ 53)"
    using assms ulp_pos[of x] unfolding e by (simp add: divide_le_eq)
  then have "round_half_even (x / ulp x) \<le> round_half_even (real_of_int (2 ^ 53))"
    by (rule round_half_even_mono)
  then have "round_half_even (x / ulp x) \<le> (2::int) ^ 53"
    by (simp only: round_half_even_of_int)
  then have "real_of_int (round_half_even (x / ulp x)) \<le> real_of_int (2 ^ 53)"
    by (simp only: of_int_le_iff)
  then have "real_of_int (round_half_even (x / ulp x)) * ulp x \<le> real_of_int (2 ^ 53) * ulp x"
    using ulp_pos[of x] by (simp only: mult_le_cancel_right) simp
  then show ?thesis unfolding e rnd_pos_def by simp
qed

lemma rnd_pos_mono:
  assumes "0 < x" and "x \<le> y"
  shows "rnd_pos x \<le> rnd_pos y"
proof (cases "binade x = binade y")
  case True
  then have u: "ulp x = ulp y" by (simp add: ulp_def)
  have "x / ulp y \<le> y / ulp y"
    using assms(2) ulp_pos[of y] by (simp add: divide_right_mono)
  then have "round_half_even (x / ulp y) \<le> round_half_even (y / ulp y)"
    by (rule round_half_even_mono)
  then have "real_of_int (round_half_even (x / ulp y)) * ulp y
             \<le> real_of_int (round_half_even (y / ulp y)) * ulp y"
    using ulp_pos[of y] by simp
  then show ?thesis by (simp add: rnd_pos_def u)
next
  case False
  with binade_mono[OF assms(2)] have lt: "binade x < binade y" by simp
  have bx: "binade x < 1023" using lt binade_range[of y] by simp
  have by': "- 1022 < binade y" using lt binade_range[of x] by simp
  have "rnd_pos x \<le> 2 powi (binade x + 1)"
    using binade_upper[OF bx] by (intro rnd_pos_upper) simp
  also have "\<dots> \<le> 2 powi binade y"
    using lt by (intro power_int_increasing) simp_all
  also have "\<dots> \<le> rnd_pos y"
    using binade_lower[OF by'] by (rule rnd_pos_lower)
  finally show ?thesis .
qed

lemma rnd_zero: "rnd 0 = 0"
  by (simp add: rnd_def)

lemma rnd_mono:
  assumes "x \<le> y"
  shows "rnd x \<le> rnd y"
proof -
  consider "0 < x" | "x = 0" | "x < 0" "0 \<le> y" | "x < 0" "y < 0" by linarith
  then show ?thesis
  proof cases
    case 1
    with assms rnd_pos_mono[of x y] show ?thesis by (simp add: rnd_def)
  next
    case 2
    with assms rnd_pos_nonneg[of y] show ?thesis by (auto simp: rnd_def)
  next
    case 3
    have "rnd x \<le> 0" using 3(1) rnd_pos_nonneg[of "- x"] by (simp add: rnd_def)
    moreover have "0 \<le> rnd y" using 3(2) rnd_pos_nonneg[of y] by (auto simp: rnd_def)
    ultimately show ?thesis by simp
  next
    case 4
    have "rnd_pos (- y) \<le> rnd_pos (- x)"
      using 4 assms by (intro rnd_pos_mono) simp_all
    with 4 show ?thesis by (simp add: rnd_def)
  qed
qed

lemma rnd_nonneg: "0 \<le> x \<Longrightarrow> 0 \<le> rnd x"
  using rnd_mono[of 0 x] by (simp add: rnd_zero)

lemmas rnd_eval = rnd_def rnd_pos_def ulp_def binade_def binade_up.simps binade_down.simps
  round_half_even_def Let_def

lemma cumulative_savings_spec_0: "cumulative_savings_spec s e 0 = 0"
  by (simp add: cumulative_savings_spec_def)

lemma cumulative_savings_spec_Suc:
  "cumulative_savings_spec s e (Suc n) = cumulative_savings_spec s e n + s * (1 + e) ^ n"
  by (simp add: cumulative_savings_spec_def)

lemma payback_loop_invariant:
  assumes "y \<le> 50"
    and "cum = cumulative_savings_float s e y"
    and "cur = escalated_savings_float s e y"
    and "\<forall>m<y. cumulative_savings_float s e m < c"
  shows "y \<le> payback_loop c e y cum cur \<and> payback_loop c e y cum cur \<le> 50 \<and>
         (\<forall>m < payback_loop c e y cum cur. cumulative_savings_float s e m < c) \<and>
         (c \<le> cumulative_savings_float s e (payback_loop c e y cum cur) \<or>
          payback_loop c e y cum cur = 50)"
  using assms
proof (induction c e y cum cur rule: payback_loop.induct)
  case (1 c e y cum cur)
  show ?case
  proof (cases "cum < c \<and> y < 50")
    case True
    have step: "payback_loop c e y cum cur = payback_loop c e (y + 1) (rnd (cum + cur)) (rnd (cur * rnd (1 + e)))"
      by (subst payback_loop.simps) (use True in auto)
    have a1: "y + 1 \<le> 50" using True by simp
    have a2: "rnd (cum + cur) = cumulative_savings_float s e (y + 1)"
      using "1.prems" by simp
    have a3: "rnd (cur * rnd (1 + e)) = escalated_savings_float s e (y + 1)"
      using "1.prems" by simp
    have a4: "\<forall>m<y + 1. cumulative_savings_float s e m < c"
      using "1.prems" True by (auto simp: less_Suc_eq)
    from "1.IH"[OF True a1 a2 a3 a4] show ?thesis
      unfolding step by auto
  next
    case False
    have stop: "payback_loop c e y cum cur = y"
      by (subst payback_loop.simps) (use False in auto)
    show ?thesis unfolding stop using False "1.prems" by auto
  qed
qed

lemma find_upt_first:
  assumes "1 \<le> r" "r \<le> 50" "P r" "\<forall>m. 1 \<le> m \<and> m < r \<longrightarrow> \<not> P m"
  shows "find P [1..<51] = Some r"
proof -
  have "\<exists>i<length [1..<51]. P ([1..<51] ! i) \<and> r = [1..<51] ! i \<and> (\<forall>j<i. \<not> P ([1..<51] ! j))"
    using assms by (intro exI[of _ "r - 1"]) (auto simp: nth_upt)
  then show ?thesis by (simp only: find_Some_iff)
qed

lemma find_upt_none:
  assumes "\<forall>m. 1 \<le> m \<and> m \<le> 50 \<longrightarrow> \<not> P m"
  shows "find P [1..<51] = None"
  using assms by (auto simp: find_None_iff)

lemma py_int_mono:
  assumes "x \<le> y"
  shows "py_int x \<le> py_int y"
proof (cases "0 \<le> x")
  case True
  with assms show ?thesis by (simp add: py_int_def floor_mono)
next
  case False
  show ?thesis
  proof (cases "0 \<le> y")
    case True
    have c: "\<lceil>x\<rceil> \<le> 0" using False by (simp add: ceiling_le_zero)
    have f: "0 \<le> \<lfloor>y\<rfloor>" using True by simp
    have "\<lceil>x\<rceil> \<le> \<lfloor>y\<rfloor>" using c f by (rule order_trans)
    then show ?thesis using False True by (simp add: py_int_def)
  next
    case False
    with \<open>\<not> 0 \<le> x\<close> assms show ?thesis by (simp add: py_int_def ceiling_mono)
  qed
qed

lemma py_int_nonneg: "0 \<le> x \<Longrightarrow> py_int x = \<lfloor>x\<rfloor>"
  by (simp add: py_int_def)

lemma panel_specs_for_total:
  "panel_specs_for ptype =
     Inr (case PANEL_SPECS ptype of
            Some p \<Rightarrow> p
          | None \<Rightarrow> \<lparr>power_watts = 400, efficiency = 0.20, area_m2 = 2.0, cost_premium = 1.0,
                      lifespan_years = 25, degradation_rate = 0.005\<rparr>)"
  by (simp add: panel_specs_for_def PANEL_SPECS_def)

lemma panel_specs_for_catalog:
  assumes "panel_specs_for ptype = Inr ps"
  shows "area_m2 ps = 2 \<and> power_watts ps \<in> {400, 350, 250, 450}"
  using assms unfolding panel_specs_for_total
  by (auto simp: PANEL_SPECS_def split: if_splits)

lemma calculate_system_size_bounds:
  "1 \<le> calculate_system_size rm ps \<and> calculate_system_size rm ps \<le> 50"
  by (simp add: calculate_system_size_def calculate_system_size_body_def Let_def
      split: sum.splits)

lemma calculate_system_size_body_num:
  assumes "rm ''usable_area'' = Some (Num a)" and "area_m2 ps \<noteq> 0"
  shows "calculate_system_size_body rm ps =
           Inr (max 1 (min (rnd (real_of_int
                              (py_int (rnd (real_of_int (py_int (rnd (a / area_m2 ps))) * 0.75))
                               * power_watts ps) / 1000)) 50))"
  using assms
  by (simp add: calculate_system_size_body_def getitem_def py_truediv_def Let_def)




lemma calculate_system_size_mono:
  assumes "a1 \<le> a2" and "0 < area_m2 ps" and "0 \<le> power_watts ps"
  shows "calculate_system_size (rm(''usable_area'' \<mapsto> Num a1)) ps
         \<le> calculate_system_size (rm(''usable_area'' \<mapsto> Num a2)) ps"
proof -
  let ?m1 = "py_int (rnd (a1 / area_m2 ps))" and ?m2 = "py_int (rnd (a2 / area_m2 ps))"
  let ?p1 = "py_int (rnd (real_of_int ?m1 * 0.75))" and ?p2 = "py_int (rnd (real_of_int ?m2 * 0.75))"
  have "a1 / area_m2 ps \<le> a2 / area_m2 ps"
    using assms by (simp add: divide_right_mono)
  then have "rnd (a1 / area_m2 ps) \<le> rnd (a2 / area_m2 ps)" by (rule rnd_mono)
  then have m: "?m1 \<le> ?m2" by (rule py_int_mono)
  then have "real_of_int ?m1 * 0.75 \<le> real_of_int ?m2 * 0.75" by simp
  then have "rnd (real_of_int ?m1 * 0.75) \<le> rnd (real_of_int ?m2 * 0.75)" by (rule rnd_mono)
  then have "?p1 \<le> ?p2" by (rule py_int_mono)
  then have "?p1 * power_watts ps \<le> ?p2 * power_watts ps"
    using assms(3) by (rule mult_right_mono)
  then have "real_of_int (?p1 * power_watts ps) \<le> real_of_int (?p2 * power_watts ps)"
    by (simp only: of_int_le_iff)
  then have "real_of_int (?p1 * power_watts ps) / 1000 \<le> real_of_int (?p2 * power_watts ps) / 1000"
    by (rule divide_right_mono) simp
  then have "rnd (real_of_int (?p1 * power_watts ps) / 1000)
             \<le> rnd (real_of_int (?p2 * power_watts ps) / 1000)"
    by (rule rnd_mono)
  then show ?thesis
    using assms(2)
    by (simp add: calculate_system_size_def calculate_system_size_body_num)
qed

lemma calculate_potential_body_total:
  assumes "panel_specs_for ptype = Inr ps"
  shows "calculate_potential_body rm sd ptype rate cost =
     Inr \<lparr>system_size_kw = calculate_system_size rm ps,
          panel_count =
            \<lfloor>rnd (rnd (calculate_system_size rm ps * 1000) / real_of_int (power_watts ps))\<rfloor>,
          annual_energy_kwh = calculate_annual_energy (calculate_system_size rm ps) sd rm ps,
          monthly_energy_kwh = calculate_annual_energy (calculate_system_size rm ps) sd rm ps / 12,
          daily_energy_kwh = calculate_annual_energy (calculate_system_size rm ps) sd rm ps / 365,
          capacity_factor =
            calculate_capacity_factor
              (calculate_annual_energy (calculate_system_size rm ps) sd rm ps)
              (calculate_system_size rm ps),
          financial =
            calculate_financial_metrics (calculate_system_size rm ps)
              (calculate_annual_energy (calculate_system_size rm ps) sd rm ps) rate cost,
          environmental =
            calculate_environmental_impact
              (calculate_annual_energy (calculate_system_size rm ps) sd rm ps),
          system_specifications =
            \<lparr>panel_type = ptype, panel_power = power_watts ps,
             panel_efficiency = efficiency ps, system_losses = SYSTEM_LOSSES\<rparr>\<rparr>"
proof -
  have pw: "0 < real_of_int (power_watts ps)"
    using panel_specs_for_catalog[OF assms] by auto
  have sz: "0 < calculate_system_size rm ps"
    using calculate_system_size_bounds[of rm ps] by linarith
  have "0 \<le> rnd (calculate_system_size rm ps * 1000)"
    using sz by (intro rnd_nonneg) simp
  then have "0 \<le> rnd (calculate_system_size rm ps * 1000) / real_of_int (power_watts ps)"
    using pw by simp
  then have "0 \<le> rnd (rnd (calculate_system_size rm ps * 1000) / real_of_int (power_watts ps))"
    by (rule rnd_nonneg)
  then show ?thesis
    using assms pw
    by (simp add: calculate_potential_body_def float_div_def Let_def py_int_nonneg)
qed

lemma panel_specs_for_monocrystalline:
  "panel_specs_for ''monocrystalline'' =
     Inr \<lparr>power_watts = 400, efficiency = 0.20, area_m2 = 2.0, cost_premium = 1.0,
          lifespan_years = 25, degradation_rate = 0.005\<rparr>"
  by (simp add: panel_specs_for_def PANEL_SPECS_def)

lemma panel_specs_for_bifacial:
  "panel_specs_for ''bifacial'' =
     Inr \<lparr>power_watts = 450, efficiency = 0.22, area_m2 = 2.0, cost_premium = 1.20,
          lifespan_years = 30, degradation_rate = 0.004\<rparr>"
  by (simp add: panel_specs_for_def PANEL_SPECS_def)

lemma get_orientation_factor_range:
  "\<exists>f. get_orientation_factor (Str s) = Inr f \<and> 0 \<le> f \<and> f \<le> 1"
  by (simp add: get_orientation_factor_def orientation_factors_def split: option.splits)

lemma get_orientation_factor_south: "get_orientation_factor (Str ''south'') = Inr 1"
  by code_simp

lemma energy_body_orientation:
  "calculate_annual_energy_body size_kw sd (rm(''orientation'' \<mapsto> Str s)) ps =
     (case daily_irradiance_of sd of
        Inl e \<Rightarrow> Inl e
      | Inr daily \<Rightarrow>
     (case get_orientation_factor (Str s) of
        Inl e \<Rightarrow> Inl e
      | Inr orientation_factor \<Rightarrow>
     (case getitem rm ''slope'' of
        Inl e \<Rightarrow> Inl e
      | Inr slope \<Rightarrow>
     (case get_tilt_factor slope of
        Inl e \<Rightarrow> Inl e
      | Inr tilt_factor \<Rightarrow>
     (case getitem rm ''shading_factor'' of
        Inl e \<Rightarrow> Inl e
      | Inr shading \<Rightarrow>
     (case as_number shading of
        Inl e \<Rightarrow> Inl e
      | Inr sh \<Rightarrow>
          (case daily of
             None \<Rightarrow> Inr 0
           | Some d \<Rightarrow>
               Inr (max 0 (size_kw * d * tilt_factor * (1 - sh) * performance_ratio * 365
                           * orientation_factor)))))))))"
  by (simp add: calculate_annual_energy_body_def getitem_def Let_def mult_ac
      split: sum.splits option.splits)

lemma max_scaled_le:
  fixes k f :: real
  assumes "0 \<le> f" and "f \<le> 1"
  shows "max 0 (k * f) \<le> max 0 (k * 1)"
proof (cases "0 \<le> k")
  case True
  then have "k * f \<le> k * 1" using assms by (intro mult_left_mono) simp_all
  then show ?thesis by simp
next
  case False
  then have "k * f \<le> 0" using assms by (simp add: mult_le_0_iff)
  then show ?thesis by simp
qed

subsection \<open>Payback period\<close>

text \<open>
  Claim C1, as the code has it. With positive annual savings and a positive net cost the
  payback period is the first year \<open>n\<close> in \<open>1..50\<close> at which the cumulative escalated
  savings, as the loop accumulates them in binary64 (one rounded multiplication by the
  rounded \<open>1 + escalation\<close> and one rounded addition per year), reach the net cost, and
  50 when no year up to 50 reaches it. With annual savings that are zero or negative the
  function returns its "no payback" sentinel, which is 99 and not 50.
\<close>

theorem payback_first_year_or_sentinel:
  "(0 < savings \<and> 0 < rnd cost \<longrightarrow>
      calculate_payback_period cost savings escalation = payback_years_spec cost savings escalation)
   \<and> (savings \<le> 0 \<longrightarrow> calculate_payback_period cost savings escalation = 99.0)"
proof (intro conjI impI)
  assume pos: "0 < savings \<and> 0 < rnd cost"
  define r where "r = payback_loop (rnd cost) (rnd escalation) 0 0 (rnd savings)"
  let ?cum = "cumulative_savings_float (rnd savings) (rnd escalation)"
  have inv: "r \<le> 50 \<and> (\<forall>m<r. ?cum m < rnd cost) \<and> (rnd cost \<le> ?cum r \<or> r = 50)"
    using payback_loop_invariant[of 0 0 "rnd savings" "rnd escalation" "rnd savings" "rnd cost"]
    by (simp add: r_def)
  have r_pos: "1 \<le> r"
  proof (rule ccontr)
    assume "\<not> 1 \<le> r"
    then have "r = 0" by simp
    with inv pos show False by simp
  qed
  have code: "calculate_payback_period cost savings escalation = real r"
    using pos inv by (simp add: calculate_payback_period_def r_def)
  show "calculate_payback_period cost savings escalation = payback_years_spec cost savings escalation"
  proof (cases "rnd cost \<le> ?cum r")
    case True
    have "find (\<lambda>n. rnd cost \<le> ?cum n) [1..<51] = Some r"
      using inv r_pos True by (intro find_upt_first) (auto simp: not_le)
    then show ?thesis by (simp add: code payback_years_spec_def)
  next
    case False
    with inv have r50: "r = 50" by simp
    have "find (\<lambda>n. rnd cost \<le> ?cum n) [1..<51] = None"
    proof (rule find_upt_none, intro allI impI)
      fix m :: nat assume m: "1 \<le> m \<and> m \<le> 50"
      show "\<not> rnd cost \<le> ?cum m"
      proof (cases "m < 50")
        case True
        with inv r50 show ?thesis by (simp add: not_le)
      next
        case False
        with m have "m = r" using r50 by simp
        with \<open>\<not> rnd cost \<le> ?cum r\<close> show ?thesis by simp
      qed
    qed
    then show ?thesis by (simp add: code payback_years_spec_def r50)
  qed
next
  assume "savings \<le> 0"
  then show "calculate_payback_period cost savings escalation = 99.0"
    by (simp add: calculate_payback_period_def)
qed

text \<open>The theorem at savings 400, cost 1000, escalation 25 percent (400, 900, 1525: three
  years), at savings 1200, cost 6370.962972, escalation 3 percent (the rounded total of
  five years is below the cost: six years), and at zero savings.\<close>

theorem payback_first_year_or_sentinel_witness:
  "payback_years_spec 1000 400 0.25 = 3
   \<and> payback_years_spec 6370.962972 1200 0.03 = 6
   \<and> calculate_payback_period 1000 0 0.25 = 99"
proof -
  have p1: "0 < rnd 1000" and p2: "0 < rnd 6370.962972" by (simp_all add: rnd_eval)
  have a: "calculate_payback_period 1000 400 0.25 = 3"
    by (simp add: calculate_payback_period_def payback_loop.simps rnd_eval)
  have b: "calculate_payback_period 6370.962972 1200 0.03 = 6"
    by (simp add: calculate_payback_period_def payback_loop.simps rnd_eval)
  show ?thesis
    using payback_first_year_or_sentinel[of 400 1000 "0.25"]
      payback_first_year_or_sentinel[of 1200 "6370.962972" "0.03"]
      payback_first_year_or_sentinel[of 0 1000 "0.25"] p1 p2 a b
    by simp
qed

text \<open>Claim C1 as stated fails twice. At zero annual savings the result is not 50. And
  the year is not always the first year at which the exact sum reaches the net cost: with
  savings of 0.1, no escalation and a net cost of 0.30000000000000004, the rounded total
  of three years equals the net cost and the loop returns 3, while the exact sum of three
  years, 0.3, is below the net cost.\<close>

theorem payback_not_50_and_not_exact_first_year:
  "calculate_payback_period 10500 0 0.03 \<noteq> 50.0
   \<and> calculate_payback_period 0.30000000000000004 0.1 0 = 3
   \<and> cumulative_savings_spec 0.1 0 3 < 0.30000000000000004"
proof -
  have a: "calculate_payback_period 10500 0 0.03 \<noteq> 50.0"
    by (simp add: calculate_payback_period_def)
  have b: "calculate_payback_period 0.30000000000000004 0.1 0 = 3"
    by (simp add: calculate_payback_period_def payback_loop.simps rnd_eval)
  have c: "cumulative_savings_spec 0.1 0 3 < 0.30000000000000004"
    by (simp add: cumulative_savings_spec_def)
  show ?thesis using a b c by blast
qed

text \<open>The loop on a cost that lies within rounding of a cumulative sum: with savings of
  1, an escalation of 50 percent and a cost of 33171994.96282004 the rounded total of 41
  years equals the cost, and the loop stops at 41.\<close>

lemma payback_stops_at_rounded_total:
  "calculate_payback_period 33171994.96282004 1.0 0.5 = 41"
  by (simp add: calculate_payback_period_def payback_loop.simps rnd_eval)

text \<open>
  Claim C9. When the net cost is zero or negative and the annual savings are positive, the
  loop condition fails at once: the loop returns year 0 and the payback period is 0.
\<close>

theorem payback_zero_for_nonpositive_cost:
  assumes "cost \<le> 0" and "0 < savings"
  shows "payback_loop cost escalation 0 0 savings = 0
       \<and> calculate_payback_period cost savings escalation = 0.0"
proof -
  have l: "payback_loop cost escalation 0 0 savings = 0"
    by (subst payback_loop.simps) (use assms in simp)
  have "rnd cost \<le> 0" using rnd_mono[OF assms(1)] by (simp add: rnd_zero)
  then have "payback_loop (rnd cost) (rnd escalation) 0 0 (rnd savings) = 0"
    by (subst payback_loop.simps) simp
  then show ?thesis using assms l by (simp add: calculate_payback_period_def)
qed

text \<open>The theorem at a zero net cost with savings of 1200.\<close>

theorem payback_zero_for_nonpositive_cost_witness:
  "(0::real) \<le> 0 \<and> (0::real) < 1200 \<and> calculate_payback_period 0 1200 0.03 = 0"
  using payback_zero_for_nonpositive_cost[of 0 1200 "0.03"] by simp

subsection \<open>System size\<close>




text \<open>
  Claim C7. With every other input fixed, a larger usable area never gives a smaller
  system size, and once the size is 50 kW it stays 50 kW for every larger usable area.
\<close>

theorem system_size_monotone_in_usable_area:
  assumes "a1 \<le> a2"
  shows "system_size_kw (calculate_potential (rm(''usable_area'' \<mapsto> Num a1)) sd ptype rate cost)
         \<le> system_size_kw (calculate_potential (rm(''usable_area'' \<mapsto> Num a2)) sd ptype rate cost)
       \<and> (system_size_kw (calculate_potential (rm(''usable_area'' \<mapsto> Num a1)) sd ptype rate cost) = 50.0
           \<longrightarrow> system_size_kw (calculate_potential (rm(''usable_area'' \<mapsto> Num a2)) sd ptype rate cost) = 50.0)"
proof -
  obtain ps where ps: "panel_specs_for ptype = Inr ps"
    using panel_specs_for_total by blast
  have cat: "0 < area_m2 ps" "0 \<le> power_watts ps"
    using panel_specs_for_catalog[OF ps] by auto
  have sz: "\<And>m. system_size_kw (calculate_potential m sd ptype rate cost) = calculate_system_size m ps"
    by (simp add: calculate_potential_def calculate_potential_body_total[OF ps])
  have mono: "calculate_system_size (rm(''usable_area'' \<mapsto> Num a1)) ps
         \<le> calculate_system_size (rm(''usable_area'' \<mapsto> Num a2)) ps"
    using assms cat by (rule calculate_system_size_mono)
  have ub: "calculate_system_size (rm(''usable_area'' \<mapsto> Num a2)) ps \<le> 50"
    using calculate_system_size_bounds by blast
  show ?thesis unfolding sz using mono ub by auto
qed

text \<open>The theorem with bifacial panels on usable areas of 10 and 90 square metres, and
  on 400 and 1000 square metres, where the size is at the 50 kW cap.\<close>

theorem system_size_monotone_in_usable_area_witness:
  "system_size_kw (calculate_potential [''usable_area'' \<mapsto> Num 10] Map.empty ''bifacial'' 0.20 3.0)
   \<le> system_size_kw (calculate_potential [''usable_area'' \<mapsto> Num 90] Map.empty ''bifacial'' 0.20 3.0)
   \<and> system_size_kw (calculate_potential [''usable_area'' \<mapsto> Num 400] Map.empty ''bifacial'' 0.20 3.0) = 50.0
   \<and> system_size_kw (calculate_potential [''usable_area'' \<mapsto> Num 1000] Map.empty ''bifacial'' 0.20 3.0) = 50.0"
proof -
  have sz: "\<And>ps. area_m2 ps = 2 \<Longrightarrow> power_watts ps = 450 \<Longrightarrow>
              calculate_system_size [''usable_area'' \<mapsto> Num 400] ps = 50.0"
    by (simp add: calculate_system_size_def calculate_system_size_body_num py_int_def rnd_eval)
  have cap: "system_size_kw (calculate_potential [''usable_area'' \<mapsto> Num 400] Map.empty ''bifacial'' 0.20 3.0) = 50.0"
    using sz
    by (simp add: calculate_potential_def calculate_potential_body_total[OF panel_specs_for_bifacial])
  have le: "system_size_kw (calculate_potential [''usable_area'' \<mapsto> Num 10] Map.empty ''bifacial'' 0.20 3.0)
      \<le> system_size_kw (calculate_potential [''usable_area'' \<mapsto> Num 90] Map.empty ''bifacial'' 0.20 3.0)"
    using system_size_monotone_in_usable_area[of 10 90 Map.empty Map.empty "''bifacial''" "0.20" "3.0"]
    by simp
  have stay: "system_size_kw (calculate_potential [''usable_area'' \<mapsto> Num 1000] Map.empty ''bifacial'' 0.20 3.0) = 50.0"
    using system_size_monotone_in_usable_area[of 400 1000 Map.empty Map.empty "''bifacial''" "0.20" "3.0"] cap
    by simp
  show ?thesis using le cap stay by blast
qed

subsection \<open>Annual energy\<close>

text \<open>
  Claim C6. With every other parameter fixed, the annual energy for the orientation
  \<open>south\<close> is at least the annual energy for any other orientation string. The
  orientation factors are those of the table, an unknown orientation has 0.85, and the
  lookup ignores letter case.
\<close>

theorem south_orientation_maximal:
  "calculate_annual_energy size_kw sd (rm(''orientation'' \<mapsto> Str s)) ps
     \<le> calculate_annual_energy size_kw sd (rm(''orientation'' \<mapsto> Str ''south'')) ps
   \<and> get_orientation_factor (Str ''south'') = Inr 1.00
   \<and> get_orientation_factor (Str ''southeast'') = Inr 0.95
   \<and> get_orientation_factor (Str ''southwest'') = Inr 0.95
   \<and> get_orientation_factor (Str ''east'') = Inr 0.85
   \<and> get_orientation_factor (Str ''west'') = Inr 0.85
   \<and> get_orientation_factor (Str ''northeast'') = Inr 0.75
   \<and> get_orientation_factor (Str ''northwest'') = Inr 0.75
   \<and> get_orientation_factor (Str ''north'') = Inr 0.60
   \<and> get_orientation_factor (Str ''unknown'') = Inr 0.85
   \<and> get_orientation_factor (Str ''South'') = Inr 1.00
   \<and> get_orientation_factor (Str ''NORTH'') = Inr 0.60"
proof -
  obtain f where f: "get_orientation_factor (Str s) = Inr f" "0 \<le> f" "f \<le> 1"
    using get_orientation_factor_range by blast
  have "calculate_annual_energy size_kw sd (rm(''orientation'' \<mapsto> Str s)) ps
     \<le> calculate_annual_energy size_kw sd (rm(''orientation'' \<mapsto> Str ''south'')) ps"
    unfolding calculate_annual_energy_def energy_body_orientation
    using max_scaled_le[OF f(2,3)]
    by (simp add: f(1) get_orientation_factor_south split: sum.splits option.splits)
  moreover have "get_orientation_factor (Str ''south'') = Inr 1.00" by code_simp
  moreover have "get_orientation_factor (Str ''southeast'') = Inr 0.95" by code_simp
  moreover have "get_orientation_factor (Str ''southwest'') = Inr 0.95" by code_simp
  moreover have "get_orientation_factor (Str ''east'') = Inr 0.85" by code_simp
  moreover have "get_orientation_factor (Str ''west'') = Inr 0.85" by code_simp
  moreover have "get_orientation_factor (Str ''northeast'') = Inr 0.75" by code_simp
  moreover have "get_orientation_factor (Str ''northwest'') = Inr 0.75" by code_simp
  moreover have "get_orientation_factor (Str ''north'') = Inr 0.60" by code_simp
  moreover have "get_orientation_factor (Str ''unknown'') = Inr 0.85" by code_simp
  moreover have "get_orientation_factor (Str ''South'') = Inr 1.00" by code_simp
  moreover have "get_orientation_factor (Str ''NORTH'') = Inr 0.60" by code_simp
  ultimately show ?thesis by blast
qed

lemma daily_irradiance_of_well_formed:
  assumes "solar_data_well_formed sd"
  shows "daily_irradiance_of sd = Inr (Some (daily_irradiance_spec sd))"
  using assms
  by (auto simp: solar_data_well_formed_def daily_irradiance_of_def daily_irradiance_spec_def
      getitem_def py_truediv_def np_mean_def domIff split: option.splits pyval.splits)

text \<open>
  Claim C5. For well-formed input (numeric or absent annual irradiance, else a non-empty
  or absent monthly sequence; a string orientation, a numeric slope and a numeric shading
  factor) the estimator does not raise, and the annual energy is
  \<open>system_size_kw * daily_irradiance * orientation_factor * tilt_factor * (1 - shading_factor)
  * performance_ratio * 365\<close> floored at 0, with the daily irradiance of the
  specification (annual over 365, else the mean of the monthly values, else 4.5) and the
  performance ratio the product of the inverter, DC, AC and soiling coefficients.
\<close>

theorem annual_energy_formula:
  assumes "solar_data_well_formed sd"
    and "rm ''orientation'' = Some (Str ori)"
    and "rm ''slope'' = Some (Num sl)"
    and "rm ''shading_factor'' = Some (Num sh)"
    and "get_orientation_factor (Str ori) = Inr orientation_factor"
    and "get_tilt_factor (Num sl) = Inr tilt_factor"
  shows "calculate_annual_energy_body size_kw sd rm ps =
           Inr (max 0 (size_kw * daily_irradiance_spec sd * orientation_factor * tilt_factor
                       * (1 - sh)
                       * (inverter_efficiency SYSTEM_LOSSES * dc_losses SYSTEM_LOSSES
                          * ac_losses SYSTEM_LOSSES * soiling_losses SYSTEM_LOSSES)
                       * 365))
       \<and> calculate_annual_energy size_kw sd rm ps =
           max 0 (size_kw * daily_irradiance_spec sd * orientation_factor * tilt_factor
                  * (1 - sh)
                  * (inverter_efficiency SYSTEM_LOSSES * dc_losses SYSTEM_LOSSES
                     * ac_losses SYSTEM_LOSSES * soiling_losses SYSTEM_LOSSES)
                  * 365)"
  using assms(2-6)
  by (simp add: calculate_annual_energy_def calculate_annual_energy_body_def
      daily_irradiance_of_well_formed[OF assms(1)] getitem_def as_number_def
      performance_ratio_def Let_def)

text \<open>The theorem with no irradiance data at all: the default 4.5 is used and nothing is
  raised.\<close>

theorem annual_energy_formula_witness:
  "calculate_annual_energy 13.2 Map.empty
     [''orientation'' \<mapsto> Str ''south'', ''slope'' \<mapsto> Num 25, ''shading_factor'' \<mapsto> Num 0.15]
     \<lparr>power_watts = 400, efficiency = 0.20, area_m2 = 2.0, cost_premium = 1.0,
      lifespan_years = 25, degradation_rate = 0.005\<rparr>
   = 13.2 * 4.5 * 1.00 * 1.00 * (1 - 0.15) * (0.96 * 0.98 * 0.99 * 0.95) * 365"
proof -
  let ?rm = "[''orientation'' \<mapsto> Str ''south'', ''slope'' \<mapsto> Num 25,
              ''shading_factor'' \<mapsto> Num 0.15] :: pydict"
  have h1: "solar_data_well_formed Map.empty"
    by (simp add: solar_data_well_formed_def)
  have h2: "?rm ''orientation'' = Some (Str ''south'')" by simp
  have h3: "?rm ''slope'' = Some (Num 25)" by simp
  have h4: "?rm ''shading_factor'' = Some (Num 0.15)" by simp
  have h5: "get_orientation_factor (Str ''south'') = Inr 1.00" by code_simp
  have h6: "get_tilt_factor (Num 25) = Inr 1.00"
    by (simp add: get_tilt_factor_def as_number_def)
  show ?thesis
    using annual_energy_formula[of Map.empty ?rm "''south''" 25 "0.15" "1.00" "1.00" "13.2", OF h1 h2 h3 h4 h5 h6]
    by (simp add: daily_irradiance_spec_def SYSTEM_LOSSES_def)
qed

subsection \<open>Financial metrics\<close>

lemma calculate_financial_metrics_body_total:
  "calculate_financial_metrics_body size_kw energy_kwh rate cost =
     Inr (calculate_financial_metrics size_kw energy_kwh rate cost)"
  by (simp add: calculate_financial_metrics_def calculate_financial_metrics_body_def
      float_div_def Let_def)

text \<open>
  Claim C8. The financial computation never raises: its body always returns its record.
  In that record the ROI is \<open>(lifetime_savings - net_cost) / net_cost * 100\<close> when the
  net cost is positive and 0 otherwise, so the division is never reached with a zero
  divisor, also for a zero electricity rate or a zero installation cost.
\<close>

theorem roi_guarded_division:
  assumes "m = calculate_financial_metrics size_kw energy_kwh rate cost"
  shows "calculate_financial_metrics_body size_kw energy_kwh rate cost = Inr m
       \<and> (0 < net_cost m \<longrightarrow>
            roi_percent m = (lifetime_savings m - net_cost m) / net_cost m * 100)
       \<and> (net_cost m \<le> 0 \<longrightarrow> roi_percent m = 0)"
  unfolding assms
  by (simp add: calculate_financial_metrics_def calculate_financial_metrics_body_def
      float_div_def Let_def)

text \<open>The theorem at a positive net cost (10500), at a zero installation cost and at a zero
  electricity rate.\<close>

theorem roi_guarded_division_witness:
  "net_cost (calculate_financial_metrics 5 6000 0.20 3.0) = 10500
   \<and> roi_percent (calculate_financial_metrics 5 6000 0.20 3.0)
       = (lifetime_savings (calculate_financial_metrics 5 6000 0.20 3.0) - 10500) / 10500 * 100
   \<and> net_cost (calculate_financial_metrics 5 6000 0.20 0) = 0
   \<and> roi_percent (calculate_financial_metrics 5 6000 0.20 0) = 0
   \<and> calculate_financial_metrics_body 5 6000 0 3.0
       = Inr (calculate_financial_metrics 5 6000 0 3.0)"
proof -
  have n1: "net_cost (calculate_financial_metrics 5 6000 0.20 3.0) = 10500"
    by (simp add: calculate_financial_metrics_def calculate_financial_metrics_body_def
        float_div_def Let_def FINANCIAL_PARAMS_def)
  have n2: "net_cost (calculate_financial_metrics 5 6000 0.20 0) = 0"
    by (simp add: calculate_financial_metrics_def calculate_financial_metrics_body_def
        float_div_def Let_def FINANCIAL_PARAMS_def)
  have r1: "roi_percent (calculate_financial_metrics 5 6000 0.20 3.0)
       = (lifetime_savings (calculate_financial_metrics 5 6000 0.20 3.0) - 10500) / 10500 * 100"
    using roi_guarded_division[of "calculate_financial_metrics 5 6000 0.20 3.0" 5 6000 "0.20" "3.0"]
    unfolding n1 by simp
  have r2: "roi_percent (calculate_financial_metrics 5 6000 0.20 0) = 0"
    using roi_guarded_division[of "calculate_financial_metrics 5 6000 0.20 0" 5 6000 "0.20" 0]
    unfolding n2 by simp
  have r3: "calculate_financial_metrics_body 5 6000 0 3.0
       = Inr (calculate_financial_metrics 5 6000 0 3.0)"
    using roi_guarded_division[of "calculate_financial_metrics 5 6000 0 3.0" 5 6000 0 "3.0"]
    by simp
  show ?thesis using n1 n2 r1 r2 r3 by blast
qed

subsection \<open>The orchestrator\<close>

text \<open>
  Claim C10. For every panel type string the result is computed (the outer handler is not
  taken) and its system specification echoes the caller's string, while the panel power
  and efficiency are those of the specification used: the catalog entry of the string,
  or the monocrystalline entry (400 W, 0.20) when the string is not in the catalog.
\<close>

theorem system_specifications_echo:
  assumes "panel_specs_for ptype = Inr ps"
  shows "calculate_potential_body rm sd ptype rate cost
           = Inr (calculate_potential rm sd ptype rate cost)
       \<and> panel_type (system_specifications (calculate_potential rm sd ptype rate cost)) = ptype
       \<and> panel_power (system_specifications (calculate_potential rm sd ptype rate cost))
           = power_watts ps
       \<and> panel_efficiency (system_specifications (calculate_potential rm sd ptype rate cost))
           = efficiency ps
       \<and> (\<forall>p. PANEL_SPECS ptype = Some p \<longrightarrow> ps = p)
       \<and> (PANEL_SPECS ptype = None \<longrightarrow> power_watts ps = 400 \<and> efficiency ps = 0.20)"
proof -
  have cat: "(\<forall>p. PANEL_SPECS ptype = Some p \<longrightarrow> ps = p)
       \<and> (PANEL_SPECS ptype = None \<longrightarrow> power_watts ps = 400 \<and> efficiency ps = 0.20)"
    using assms unfolding panel_specs_for_total by auto
  show ?thesis
    using cat
    by (simp add: calculate_potential_def calculate_potential_body_total[OF assms])
qed

lemma panel_specs_for_exotic:
  "panel_specs_for ''exotic'' =
     Inr \<lparr>power_watts = 400, efficiency = 0.20, area_m2 = 2.0, cost_premium = 1.0,
          lifespan_years = 25, degradation_rate = 0.005\<rparr>"
  by (simp add: panel_specs_for_def PANEL_SPECS_def)

text \<open>The theorem at the panel type \<open>exotic\<close>, which the catalog does not have, and
  at \<open>bifacial\<close>, which it has.\<close>

theorem system_specifications_echo_witness:
  "panel_type (system_specifications
     (calculate_potential [''usable_area'' \<mapsto> Num 90] Map.empty ''exotic'' 0.20 3.0)) = ''exotic''
   \<and> panel_power (system_specifications
     (calculate_potential [''usable_area'' \<mapsto> Num 90] Map.empty ''exotic'' 0.20 3.0)) = 400
   \<and> panel_efficiency (system_specifications
     (calculate_potential [''usable_area'' \<mapsto> Num 90] Map.empty ''exotic'' 0.20 3.0)) = 0.20
   \<and> panel_type (system_specifications
     (calculate_potential [''usable_area'' \<mapsto> Num 90] Map.empty ''bifacial'' 0.20 3.0)) = ''bifacial''
   \<and> panel_power (system_specifications
     (calculate_potential [''usable_area'' \<mapsto> Num 90] Map.empty ''bifacial'' 0.20 3.0)) = 450
   \<and> panel_efficiency (system_specifications
     (calculate_potential [''usable_area'' \<mapsto> Num 90] Map.empty ''bifacial'' 0.20 3.0)) = 0.22"
  using system_specifications_echo[of "''exotic''"
      "\<lparr>power_watts = 400, efficiency = 0.20, area_m2 = 2.0, cost_premium = 1.0,
        lifespan_years = 25, degradation_rate = 0.005\<rparr>"
      "[''usable_area'' \<mapsto> Num 90]" Map.empty "0.20" "3.0", OF panel_specs_for_exotic]
    system_specifications_echo[of "''bifacial''"
      "\<lparr>power_watts = 450, efficiency = 0.22, area_m2 = 2.0, cost_premium = 1.20,
          lifespan_years = 30, degradation_rate = 0.004\<rparr>"
      "[''usable_area'' \<mapsto> Num 90]" Map.empty "0.20" "3.0", OF panel_specs_for_bifacial]
  by simp

lemma calculate_system_size_body_not_number:
  assumes "\<forall>a. rm ''usable_area'' \<noteq> Some (Num a)"
  shows "calculate_system_size_body rm ps
           = Inl (if rm ''usable_area'' = None then KeyError ''usable_area'' else TypeError)"
proof (cases "rm ''usable_area''")
  case None
  then show ?thesis by (simp add: calculate_system_size_body_def getitem_def)
next
  case (Some v)
  with assms show ?thesis
    by (cases v) (simp_all add: calculate_system_size_body_def getitem_def py_truediv_def)
qed

lemma calculate_system_size_not_number:
  assumes "\<forall>a. rm ''usable_area'' \<noteq> Some (Num a)"
  shows "calculate_system_size rm ps = 5.0"
  by (simp add: calculate_system_size_def calculate_system_size_body_not_number[of rm, OF assms])

lemma default_size_panel_count:
  assumes "p \<in> {400, 350, 250, 450}"
  shows "\<lfloor>rnd (rnd (5.0 * 1000) / real_of_int p)\<rfloor> = \<lfloor>5000 / real_of_int p\<rfloor>"
proof -
  have r: "rnd (5.0 * 1000) = 5000" by (simp add: rnd_eval)
  from assms consider "p = 400" | "p = 350" | "p = 250" | "p = 450" by auto
  then show ?thesis
  proof cases
    case 1
    have e: "rnd (5000 / real_of_int 400) = 25 / 2" by (simp add: rnd_eval)
    show ?thesis unfolding r 1 e by simp
  next
    case 2
    have e: "rnd (5000 / real_of_int 350) = 8042142191733029 / 562949953421312" by (simp add: rnd_eval)
    show ?thesis unfolding r 2 e by simp
  next
    case 3
    have e: "rnd (5000 / real_of_int 250) = 20" by (simp add: rnd_eval)
    show ?thesis unfolding r 3 e by simp
  next
    case 4
    have e: "rnd (5000 / real_of_int 450) = 3127499741229511 / 281474976710656" by (simp add: rnd_eval)
    show ?thesis unfolding r 4 e by simp
  qed
qed

text \<open>
  Claim C2, as the code has it. When \<open>usable_area\<close> is missing from the roof metrics, or
  is not a number, the sizer raises and its own handler returns 5 kW; the orchestrator
  does not raise and does not return the canned record: it carries on with 5 kW, so the
  panel count is the floor of \<open>5000 / power_watts\<close> (12, 14, 20 or 11 for the four
  catalog entries, never 16) and the energy is the estimate for a 5 kW system.
\<close>

theorem missing_usable_area_sizer_default:
  assumes "\<forall>a. rm ''usable_area'' \<noteq> Some (Num a)" and "panel_specs_for ptype = Inr ps"
  shows "calculate_potential_body rm sd ptype rate cost
           = Inr (calculate_potential rm sd ptype rate cost)
       \<and> calculate_system_size_body rm ps
           = Inl (if rm ''usable_area'' = None then KeyError ''usable_area'' else TypeError)
       \<and> system_size_kw (calculate_potential rm sd ptype rate cost) = 5.0
       \<and> panel_count (calculate_potential rm sd ptype rate cost)
           = \<lfloor>5000 / real_of_int (power_watts ps)\<rfloor>
       \<and> panel_count (calculate_potential rm sd ptype rate cost) \<in> {12, 14, 20, 11}
       \<and> annual_energy_kwh (calculate_potential rm sd ptype rate cost)
           = calculate_annual_energy 5.0 sd rm ps"
proof -
  have pc: "\<lfloor>5000 / real_of_int (power_watts ps)\<rfloor> \<in> {12, 14, 20, 11}"
    using panel_specs_for_catalog[OF assms(2)] by auto
  have sz: "calculate_system_size rm ps = 5.0"
    using assms(1) by (rule calculate_system_size_not_number)
  have fl: "\<lfloor>rnd (rnd (5.0 * 1000) / real_of_int (power_watts ps))\<rfloor>
              = \<lfloor>5000 / real_of_int (power_watts ps)\<rfloor>"
    using panel_specs_for_catalog[OF assms(2)] default_size_panel_count by blast
  have cnt: "panel_count (calculate_potential rm sd ptype rate cost)
               = \<lfloor>rnd (rnd (calculate_system_size rm ps * 1000) / real_of_int (power_watts ps))\<rfloor>"
    by (simp add: calculate_potential_def calculate_potential_body_total[OF assms(2)])
  have cnt': "panel_count (calculate_potential rm sd ptype rate cost)
               = \<lfloor>5000 / real_of_int (power_watts ps)\<rfloor>"
    unfolding cnt sz fl ..
  have rest: "calculate_potential_body rm sd ptype rate cost
           = Inr (calculate_potential rm sd ptype rate cost)
       \<and> system_size_kw (calculate_potential rm sd ptype rate cost) = 5.0
       \<and> annual_energy_kwh (calculate_potential rm sd ptype rate cost)
           = calculate_annual_energy 5.0 sd rm ps"
    by (simp add: calculate_potential_def calculate_potential_body_total[OF assms(2)] sz)
  show ?thesis
    using rest pc cnt' calculate_system_size_body_not_number[of rm ps, OF assms(1)]
    by simp
qed

text \<open>The theorem on roof metrics that hold an orientation only.\<close>

theorem missing_usable_area_sizer_default_witness:
  "system_size_kw (calculate_potential [''orientation'' \<mapsto> Str ''south''] Map.empty
                     ''monocrystalline'' 0.20 3.0) = 5
   \<and> panel_count (calculate_potential [''orientation'' \<mapsto> Str ''south''] Map.empty
                     ''monocrystalline'' 0.20 3.0) = 12"
proof -
  have h1: "\<forall>a. [''orientation'' \<mapsto> Str ''south''] ''usable_area'' \<noteq> Some (Num a)" by simp
  show ?thesis
    using missing_usable_area_sizer_default[of "[''orientation'' \<mapsto> Str ''south'']" "''monocrystalline''"
        "\<lparr>power_watts = 400, efficiency = 0.20, area_m2 = 2.0, cost_premium = 1.0,
          lifespan_years = 25, degradation_rate = 0.005\<rparr>" Map.empty "0.20" "3.0",
        OF h1 panel_specs_for_monocrystalline]
    by simp
qed

text \<open>Claim C2 as stated fails on roof metrics without \<open>usable_area\<close>: the panel
  count is not 16.\<close>

theorem missing_usable_area_panel_count_not_16:
  "panel_count
     (calculate_potential
        [''total_area'' \<mapsto> Num 120, ''orientation'' \<mapsto> Str ''south'', ''slope'' \<mapsto> Num 25,
         ''shading_factor'' \<mapsto> Num 0.15]
        [''annual_irradiance'' \<mapsto> Num 1642.5]
        ''monocrystalline'' 0.20 3.0) \<noteq> 16"
proof -
  let ?rm = "[''total_area'' \<mapsto> Num 120, ''orientation'' \<mapsto> Str ''south'', ''slope'' \<mapsto> Num 25,
         ''shading_factor'' \<mapsto> Num 0.15] :: pydict"
  let ?ps = "\<lparr>power_watts = 400, efficiency = 0.20, area_m2 = 2.0, cost_premium = 1.0,
          lifespan_years = 25, degradation_rate = 0.005\<rparr>"
  have sz: "calculate_system_size ?rm ?ps = 5.0"
    by (rule calculate_system_size_not_number) simp
  have cnt: "panel_count (calculate_potential ?rm [''annual_irradiance'' \<mapsto> Num 1642.5]
                            ''monocrystalline'' 0.20 3.0)
               = \<lfloor>rnd (rnd (calculate_system_size ?rm ?ps * 1000) / real_of_int (power_watts ?ps))\<rfloor>"
    by (simp add: calculate_potential_def
        calculate_potential_body_total[OF panel_specs_for_monocrystalline])
  show ?thesis unfolding cnt sz by (simp add: rnd_eval)
qed

lemma panel_specs_for_polycrystalline:
  "panel_specs_for ''polycrystalline'' =
     Inr \<lparr>power_watts = 350, efficiency = 0.17, area_m2 = 2.0, cost_premium = 0.85,
          lifespan_years = 25, degradation_rate = 0.006\<rparr>"
  by (simp add: panel_specs_for_def PANEL_SPECS_def)

text \<open>
  Claim C3, as the code has it. The result is assembled stage by stage, and each stage
  has its own default: the system size is the sizer's value, or 5 kW when the sizer
  raises; the annual energy is the estimator's value for that size, or 1200 kWh per kW
  when the estimator raises; every other field is computed from these two. The
  orchestrator's body never raises on such input, so the record is a computed one, in
  which stage defaults and computed values can stand side by side.
\<close>

theorem stage_defaults:
  assumes "panel_specs_for ptype = Inr ps"
    and "r = calculate_potential rm sd ptype rate cost"
  shows "calculate_potential_body rm sd ptype rate cost = Inr r
       \<and> system_size_kw r = (case calculate_system_size_body rm ps of
                               Inl e \<Rightarrow> 5.0
                             | Inr kw \<Rightarrow> kw)
       \<and> annual_energy_kwh r = (case calculate_annual_energy_body (system_size_kw r) sd rm ps of
                                  Inl e \<Rightarrow> system_size_kw r * 1200
                                | Inr kwh \<Rightarrow> kwh)
       \<and> panel_count r
           = \<lfloor>rnd (rnd (system_size_kw r * 1000) / real_of_int (power_watts ps))\<rfloor>
       \<and> monthly_energy_kwh r = annual_energy_kwh r / 12
       \<and> daily_energy_kwh r = annual_energy_kwh r / 365
       \<and> capacity_factor r = calculate_capacity_factor (annual_energy_kwh r) (system_size_kw r)
       \<and> calculate_financial_metrics_body (system_size_kw r) (annual_energy_kwh r) rate cost
           = Inr (financial r)
       \<and> environmental r = calculate_environmental_impact (annual_energy_kwh r)"
  unfolding assms(2)
  by (simp add: calculate_potential_def calculate_potential_body_total[OF assms(1)]
      calculate_system_size_def calculate_annual_energy_def
      calculate_financial_metrics_body_total split: sum.splits)

text \<open>The theorem on roof metrics whose orientation is a number and that have no usable
  area: both stages take their defaults, 5 kW and 6000 kWh.\<close>

theorem stage_defaults_witness:
  "system_size_kw (calculate_potential [''orientation'' \<mapsto> Num 3] Map.empty ''thin_film'' 0.20 3.0) = 5
   \<and> annual_energy_kwh (calculate_potential [''orientation'' \<mapsto> Num 3] Map.empty ''thin_film'' 0.20 3.0) = 6000"
proof -
  let ?rm = "[''orientation'' \<mapsto> Num 3] :: pydict"
  let ?ps = "\<lparr>power_watts = 250, efficiency = 0.12, area_m2 = 2.0, cost_premium = 0.70,
          lifespan_years = 20, degradation_rate = 0.008\<rparr>"
  have ps: "panel_specs_for ''thin_film'' = Inr ?ps"
    by (simp add: panel_specs_for_def PANEL_SPECS_def)
  have sb: "\<And>ps. calculate_system_size_body ?rm ps = Inl (KeyError ''usable_area'')"
    by (simp add: calculate_system_size_body_def getitem_def)
  have eb: "\<And>ps. calculate_annual_energy_body 5 Map.empty ?rm ps = Inl AttributeError"
    by (simp add: calculate_annual_energy_body_def daily_irradiance_of_def getitem_def
        get_orientation_factor_def)
  note c = stage_defaults[of "''thin_film''" ?ps
      "calculate_potential ?rm Map.empty ''thin_film'' 0.20 3.0" ?rm Map.empty "0.20" "3.0",
      OF ps refl]
  from c sb have a: "system_size_kw (calculate_potential ?rm Map.empty ''thin_film'' 0.20 3.0) = 5"
    by simp
  from c a eb have b: "annual_energy_kwh (calculate_potential ?rm Map.empty ''thin_film'' 0.20 3.0) = 6000"
    by simp
  show ?thesis using a b by simp
qed

text \<open>Claim C3 as stated fails when \<open>usable_area\<close> is a string: the result is not the
  canned record, its system size is the sizer's default because the sizer raised, and its
  annual energy is the value the estimator computed for that size.\<close>

theorem mixed_result_on_string_usable_area:
  "calculate_potential
     [''usable_area'' \<mapsto> Str ''90'', ''orientation'' \<mapsto> Str ''east'', ''slope'' \<mapsto> Num 30,
      ''shading_factor'' \<mapsto> Num 0.10]
     [''annual_irradiance'' \<mapsto> Num 1825]
     ''polycrystalline'' 0.20 3.0 \<noteq> get_default_potential
   \<and> calculate_system_size_body
       [''usable_area'' \<mapsto> Str ''90'', ''orientation'' \<mapsto> Str ''east'', ''slope'' \<mapsto> Num 30,
        ''shading_factor'' \<mapsto> Num 0.10]
       \<lparr>power_watts = 350, efficiency = 0.17, area_m2 = 2.0, cost_premium = 0.85,
        lifespan_years = 25, degradation_rate = 0.006\<rparr> = Inl TypeError
   \<and> system_size_kw
       (calculate_potential
          [''usable_area'' \<mapsto> Str ''90'', ''orientation'' \<mapsto> Str ''east'', ''slope'' \<mapsto> Num 30,
           ''shading_factor'' \<mapsto> Num 0.10]
          [''annual_irradiance'' \<mapsto> Num 1825]
          ''polycrystalline'' 0.20 3.0) = 5.0
   \<and> calculate_annual_energy_body 5.0 [''annual_irradiance'' \<mapsto> Num 1825]
       [''usable_area'' \<mapsto> Str ''90'', ''orientation'' \<mapsto> Str ''east'', ''slope'' \<mapsto> Num 30,
        ''shading_factor'' \<mapsto> Num 0.10]
       \<lparr>power_watts = 350, efficiency = 0.17, area_m2 = 2.0, cost_premium = 0.85,
        lifespan_years = 25, degradation_rate = 0.006\<rparr>
       = Inr (annual_energy_kwh
           (calculate_potential
              [''usable_area'' \<mapsto> Str ''90'', ''orientation'' \<mapsto> Str ''east'', ''slope'' \<mapsto> Num 30,
               ''shading_factor'' \<mapsto> Num 0.10]
              [''annual_irradiance'' \<mapsto> Num 1825]
              ''polycrystalline'' 0.20 3.0))
   \<and> annual_energy_kwh
       (calculate_potential
          [''usable_area'' \<mapsto> Str ''90'', ''orientation'' \<mapsto> Str ''east'', ''slope'' \<mapsto> Num 30,
           ''shading_factor'' \<mapsto> Num 0.10]
          [''annual_irradiance'' \<mapsto> Num 1825]
          ''polycrystalline'' 0.20 3.0) \<noteq> 6000"
proof -
  let ?rm = "[''usable_area'' \<mapsto> Str ''90'', ''orientation'' \<mapsto> Str ''east'', ''slope'' \<mapsto> Num 30,
      ''shading_factor'' \<mapsto> Num 0.10] :: pydict"
  let ?sd = "[''annual_irradiance'' \<mapsto> Num 1825] :: pydict"
  let ?ps = "\<lparr>power_watts = 350, efficiency = 0.17, area_m2 = 2.0, cost_premium = 0.85,
        lifespan_years = 25, degradation_rate = 0.006\<rparr>"
  let ?r = "calculate_potential ?rm ?sd ''polycrystalline'' 0.20 3.0"
  have body: "\<And>ps. calculate_system_size_body ?rm ps = Inl TypeError"
    by (simp add: calculate_system_size_body_def getitem_def py_truediv_def)
  have sz: "\<And>ps. calculate_system_size ?rm ps = 5.0"
    using body by (simp add: calculate_system_size_def)
  have size: "system_size_kw ?r = 5.0"
    using sz
    by (simp add: calculate_potential_def
        calculate_potential_body_total[OF panel_specs_for_polycrystalline])
  have of_east: "get_orientation_factor (Str ''east'') = Inr 0.85" by code_simp
  have eb: "\<And>ps. calculate_annual_energy_body 5.0 ?sd ?rm ps
              = Inr (5.0 * 5 * 0.85 * 0.98 * 0.90 * (0.96 * 0.98 * 0.99 * 0.95) * 365)"
    using of_east
    by (simp add: calculate_annual_energy_body_def daily_irradiance_of_def getitem_def
        py_truediv_def get_tilt_factor_def as_number_def performance_ratio_def
        SYSTEM_LOSSES_def Let_def)
  have energy: "annual_energy_kwh ?r = 5.0 * 5 * 0.85 * 0.98 * 0.90 * (0.96 * 0.98 * 0.99 * 0.95) * 365"
    using sz eb
    by (simp add: calculate_potential_def
        calculate_potential_body_total[OF panel_specs_for_polycrystalline]
        calculate_annual_energy_def)
  have ne6000: "annual_energy_kwh ?r \<noteq> 6000"
    using energy by simp
  have "annual_energy_kwh get_default_potential = 6000"
    by (simp add: get_default_potential_def)
  with ne6000 have neq: "?r \<noteq> get_default_potential" by auto
  have eb': "calculate_annual_energy_body 5.0 ?sd ?rm ?ps = Inr (annual_energy_kwh ?r)"
    using eb[of ?ps] energy by simp
  show ?thesis using neq body[of ?ps] size eb' ne6000 by blast
qed

end
